theory Spec2Isabelle
  imports Complex_Main
begin

section \<open>StudyCircle: the entity store, its row-level policies and the page operations\<close>

text \<open>
  The store is the set of tables created by the SQL migrations. Each page operation of the
  client (\<^verbatim>\<open>supabase.from(t).update(v).eq(c, x)\<close> and friends) is one statement run in the
  store under the identity \<^verbatim>\<open>auth.uid()\<close> of the signed-in user, so every statement is
  filtered by the row-level policies of its table. Identifiers (UUIDs) are opaque keys that
  are only compared for equality; they are natural numbers here. Timestamps are natural
  numbers as well. An actor is \<open>Some u\<close> for a signed-in user and \<open>None\<close> for an
  anonymous visitor, for whom \<^verbatim>\<open>auth.uid()\<close> is NULL.
\<close>

type_synonym uuid = nat
type_synonym actor = "uuid option"

subsection \<open>SQL's three-valued logic\<close>

text \<open>
  A policy expression evaluates to TRUE, FALSE or NULL; \<open>None\<close> is NULL. A row passes a
  \<^verbatim>\<open>USING\<close> or \<^verbatim>\<open>WITH CHECK\<close> expression, or a \<^verbatim>\<open>WHERE\<close> clause, only when
  the expression is TRUE.
\<close>

type_synonym sql_bool = "bool option"

definition sql_eq :: "'a option \<Rightarrow> 'a option \<Rightarrow> sql_bool" where
  "sql_eq a b = (case a of None \<Rightarrow> None
                 | Some x \<Rightarrow> (case b of None \<Rightarrow> None | Some y \<Rightarrow> Some (x = y)))"

definition sql_or :: "sql_bool \<Rightarrow> sql_bool \<Rightarrow> sql_bool" where
  "sql_or a b = (if a = Some True \<or> b = Some True then Some True
                 else if a = None \<or> b = None then None else Some False)"

definition sql_and :: "sql_bool \<Rightarrow> sql_bool \<Rightarrow> sql_bool" where
  "sql_and a b = (if a = Some False \<or> b = Some False then Some False
                  else if a = None \<or> b = None then None else Some True)"

definition passes :: "sql_bool \<Rightarrow> bool" where
  "passes b = (b = Some True)"

subsection \<open>Tables\<close>

text \<open>
  Columns declared \<^verbatim>\<open>NOT NULL\<close> have their plain type; the nullable columns that an
  operation or a policy reads (\<^verbatim>\<open>view_count\<close>, \<^verbatim>\<open>upvotes\<close>,
  \<^verbatim>\<open>download_count\<close>, \<^verbatim>\<open>max_members\<close>, \<^verbatim>\<open>privacy\<close>, \<^verbatim>\<open>role\<close>) are options.
  The two flags \<^verbatim>\<open>is_accepted\<close> and \<^verbatim>\<open>is_resolved\<close> default to false and the
  operations only ever write true or false to them; they are booleans here.
\<close>

datatype group_role = Admin | Moderator | Member
datatype privacy_level = Public | Private | Invite_only

record question =
  q_id :: uuid
  q_user_id :: uuid
  q_title :: string
  q_content :: string
  q_view_count :: "int option"
  q_upvotes :: "int option"
  q_is_resolved :: bool

record answer =
  a_id :: uuid
  a_question_id :: uuid
  a_user_id :: uuid
  a_content :: string
  a_upvotes :: "int option"
  a_is_accepted :: bool

record study_group =
  sg_id :: uuid
  sg_name :: string
  sg_creator_id :: uuid
  sg_max_members :: "int option"
  sg_privacy :: "privacy_level option"

record group_member =
  gm_group_id :: uuid
  gm_user_id :: uuid
  gm_role :: "group_role option"

record resource =
  r_id :: uuid
  r_user_id :: uuid
  r_title :: string
  r_download_count :: "int option"

record message =
  m_id :: uuid
  m_group_id :: uuid
  m_user_id :: uuid
  m_content :: string
  m_created_at :: nat

record profile =
  p_user_id :: uuid
  p_full_name :: string
  p_points :: "int option"

record notification =
  n_user_id :: uuid
  n_type :: string
  n_title :: string
  n_message :: string
  n_is_read :: bool

record badge =
  b_id :: uuid
  b_name :: string
  b_requirement_type :: string
  b_requirement_value :: int

record user_badge =
  ub_user_id :: uuid
  ub_badge_id :: uuid

record db =
  questions :: "question list"
  answers :: "answer list"
  study_groups :: "study_group list"
  group_members :: "group_member list"
  resources :: "resource list"
  messages :: "message list"
  profiles :: "profile list"
  notifications :: "notification list"
  user_badges :: "user_badge list"

text \<open>
  The errors of the store that the statements below can meet, with their SQLSTATE: 42501,
  23505, 23503, 22003 and 42P17.
\<close>

datatype pg_error = RlsViolation | UniqueViolation | ForeignKeyViolation
  | Numeric_value_out_of_range | Infinite_recursion

subsection \<open>Row-level policies\<close>

text \<open>
  Each definition is the expression of one \<^verbatim>\<open>CREATE POLICY\<close>, with \<^verbatim>\<open>auth.uid()\<close>
  the actor. An \<^verbatim>\<open>EXISTS\<close> subquery is itself a \<^verbatim>\<open>SELECT\<close> on \<^verbatim>\<open>group_members\<close>
  and sees the rows that the read policy of \<^verbatim>\<open>group_members\<close> lets it see; these rows
  are the argument \<open>seen\<close>. \<^verbatim>\<open>EXISTS\<close> itself is never NULL.
\<close>

definition questions_update_using :: "actor \<Rightarrow> question \<Rightarrow> sql_bool" where
  "questions_update_using uid q = sql_eq uid (Some (q_user_id q))"

definition answers_update_using :: "actor \<Rightarrow> answer \<Rightarrow> sql_bool" where
  "answers_update_using uid a = sql_eq uid (Some (a_user_id a))"

definition resources_update_using :: "actor \<Rightarrow> resource \<Rightarrow> sql_bool" where
  "resources_update_using uid r = sql_eq uid (Some (r_user_id r))"

definition study_groups_select_using :: "actor \<Rightarrow> study_group \<Rightarrow> sql_bool" where
  "study_groups_select_using uid g =
     sql_or (sql_eq (sg_privacy g) (Some Public)) (sql_eq (Some (sg_creator_id g)) uid)"

definition group_members_insert_check :: "actor \<Rightarrow> group_member \<Rightarrow> sql_bool" where
  "group_members_insert_check uid gm = sql_eq uid (Some (gm_user_id gm))"

definition group_members_select_using :: "actor \<Rightarrow> group_member list \<Rightarrow> group_member \<Rightarrow> sql_bool" where
  "group_members_select_using uid seen row =
     Some (list_ex (\<lambda>gm. passes (sql_and (sql_eq (Some (gm_group_id gm)) (Some (gm_group_id row)))
                                        (sql_eq (Some (gm_user_id gm)) uid)))
                   seen)"

definition messages_select_using :: "actor \<Rightarrow> group_member list \<Rightarrow> message \<Rightarrow> sql_bool" where
  "messages_select_using uid seen m =
     Some (list_ex (\<lambda>gm. passes (sql_and (sql_eq (Some (gm_group_id gm)) (Some (m_group_id m)))
                                        (sql_eq (Some (gm_user_id gm)) uid)))
                   seen)"

definition profiles_select_using :: "actor \<Rightarrow> profile \<Rightarrow> sql_bool" where
  "profiles_select_using uid p = Some True"

subsection \<open>The read rules in the words of the specification\<close>

text \<open>
  The specification's rule for a study group: allow if privacy is public or the actor is the
  creator. Its rule for a message: allow only if the actor is a member of the message's
  group. An anonymous actor is nobody's creator and no group's member.
\<close>

definition spec_may_read_group :: "actor \<Rightarrow> study_group \<Rightarrow> bool" where
  "spec_may_read_group uid g = (sg_privacy g = Some Public \<or> uid = Some (sg_creator_id g))"

definition spec_is_member :: "actor \<Rightarrow> uuid \<Rightarrow> db \<Rightarrow> bool" where
  "spec_is_member uid g d =
     (case uid of None \<Rightarrow> False
      | Some u \<Rightarrow> (g, u) \<in> set (map (\<lambda>gm. (gm_group_id gm, gm_user_id gm)) (group_members d)))"

subsection \<open>Reading through policies that query other tables\<close>

text \<open>
  When a query names a table whose read policy contains a subquery, the store rewrites the
  query: it marks the table as being expanded, attaches the policy, and rewrites the
  subquery in turn. Meeting a table that is already being expanded, it stops with
  \<^verbatim>\<open>infinite recursion detected in policy for relation\<close> (42P17), before a single row is
  read. The list \<open>active\<close> holds the tables being expanded. The read policy of
  \<^verbatim>\<open>group_members\<close> queries \<^verbatim>\<open>group_members\<close>; the read policy of \<^verbatim>\<open>messages\<close>
  queries \<^verbatim>\<open>group_members\<close> too.
\<close>

datatype relation = Rel_group_members | Rel_messages

function visible_group_members ::
  "relation list \<Rightarrow> actor \<Rightarrow> db \<Rightarrow> pg_error + group_member list" where
  "visible_group_members active uid d =
     (if Rel_group_members \<in> set active then Inl Infinite_recursion
      else (case visible_group_members (Rel_group_members # active) uid d of
              Inl e \<Rightarrow> Inl e
            | Inr seen \<Rightarrow>
                Inr (filter (\<lambda>gm. passes (group_members_select_using uid seen gm))
                       (group_members d))))"
  by pat_completeness auto
termination
  by (relation "measure (\<lambda>(active, uid, d). if Rel_group_members \<in> set active then 0 else 1)")
     auto

declare visible_group_members.simps [simp del]

text \<open>\<^verbatim>\<open>SELECT ... FROM messages WHERE wh\<close>, run by the actor.\<close>

definition select_messages :: "actor \<Rightarrow> (message \<Rightarrow> bool) \<Rightarrow> db \<Rightarrow> pg_error + message list" where
  "select_messages uid wh d =
     (case visible_group_members [Rel_messages] uid d of
        Inl e \<Rightarrow> Inl e
      | Inr seen \<Rightarrow>
          Inr (filter (\<lambda>m. wh m \<and> passes (messages_select_using uid seen m)) (messages d)))"

subsection \<open>Statements run in the store\<close>

text \<open>
  \<^verbatim>\<open>UPDATE t SET ... WHERE c\<close> under row-level security changes the rows that satisfy the
  \<^verbatim>\<open>WHERE\<close> clause and the table's \<^verbatim>\<open>USING\<close> expression; a row that fails the policy
  is skipped without an error, so the client sees \<^verbatim>\<open>error = null\<close> whether or not a row
  changed. None of the updates below changes \<^verbatim>\<open>user_id\<close>, so the new row passes the
  same expression. The counters are \<^verbatim>\<open>INTEGER\<close> columns: assigning a value outside the
  32-bit range to a row fails with 22003, and the statement then changes nothing. The store
  is taken to be reachable: the only errors are those of the store's own checks.
\<close>

definition int4 :: "int option \<Rightarrow> bool" where
  "int4 v = (case v of None \<Rightarrow> True | Some n \<Rightarrow> - 2147483648 \<le> n \<and> n \<le> 2147483647)"

definition update_questions ::
  "actor \<Rightarrow> (question \<Rightarrow> bool) \<Rightarrow> (question \<Rightarrow> question) \<Rightarrow> db \<Rightarrow> pg_error option \<times> db" where
  "update_questions uid wh upd d =
     (if list_ex (\<lambda>q. wh q \<and> passes (questions_update_using uid q) \<and>
                      \<not> (int4 (q_view_count (upd q)) \<and> int4 (q_upvotes (upd q)))) (questions d)
      then (Some Numeric_value_out_of_range, d)
      else (None, d\<lparr>questions :=
              map (\<lambda>q. if wh q \<and> passes (questions_update_using uid q) then upd q else q)
                (questions d)\<rparr>))"

definition update_answers ::
  "actor \<Rightarrow> (answer \<Rightarrow> bool) \<Rightarrow> (answer \<Rightarrow> answer) \<Rightarrow> db \<Rightarrow> pg_error option \<times> db" where
  "update_answers uid wh upd d =
     (if list_ex (\<lambda>a. wh a \<and> passes (answers_update_using uid a) \<and>
                      \<not> int4 (a_upvotes (upd a))) (answers d)
      then (Some Numeric_value_out_of_range, d)
      else (None, d\<lparr>answers :=
              map (\<lambda>a. if wh a \<and> passes (answers_update_using uid a) then upd a else a)
                (answers d)\<rparr>))"

definition update_resources ::
  "actor \<Rightarrow> (resource \<Rightarrow> bool) \<Rightarrow> (resource \<Rightarrow> resource) \<Rightarrow> db \<Rightarrow> pg_error option \<times> db" where
  "update_resources uid wh upd d =
     (if list_ex (\<lambda>r. wh r \<and> passes (resources_update_using uid r) \<and>
                      \<not> int4 (r_download_count (upd r))) (resources d)
      then (Some Numeric_value_out_of_range, d)
      else (None, d\<lparr>resources :=
              map (\<lambda>r. if wh r \<and> passes (resources_update_using uid r) then upd r else r)
                (resources d)\<rparr>))"

text \<open>
  \<^verbatim>\<open>INSERT INTO group_members\<close>: the \<^verbatim>\<open>WITH CHECK\<close> expression of the insert policy,
  then \<^verbatim>\<open>UNIQUE(group_id, user_id)\<close>, then the foreign key to \<^verbatim>\<open>study_groups\<close>.
  No other constraint or trigger is declared on the table.
\<close>

definition insert_group_member :: "actor \<Rightarrow> group_member \<Rightarrow> db \<Rightarrow> pg_error option \<times> db" where
  "insert_group_member uid row d =
     (if \<not> passes (group_members_insert_check uid row) then (Some RlsViolation, d)
      else if list_ex (\<lambda>gm. gm_group_id gm = gm_group_id row \<and> gm_user_id gm = gm_user_id row)
                (group_members d)
        then (Some UniqueViolation, d)
      else if \<not> list_ex (\<lambda>g. sg_id g = gm_group_id row) (study_groups d)
        then (Some ForeignKeyViolation, d)
      else (None, d\<lparr>group_members := group_members d @ [row]\<rparr>))"

definition member_count :: "uuid \<Rightarrow> db \<Rightarrow> nat" where
  "member_count gid d = length (filter (\<lambda>gm. gm_group_id gm = gid) (group_members d))"

subsection \<open>QuestionDetail.tsx\<close>

text \<open>
  The page holds \<^verbatim>\<open>question\<close> (null until \<^verbatim>\<open>fetchQuestion\<close> has answered) and
  \<^verbatim>\<open>answers\<close>, copies of rows fetched earlier; they are parameters here, next to the
  signed-in \<^verbatim>\<open>user\<close> and the route parameter \<^verbatim>\<open>id\<close> (\<open>route_id\<close> below).
  The fetches that follow a write only refresh these copies; a failed write is logged or
  shown as a toast. A JavaScript number that is
  \<^verbatim>\<open>null\<close> counts as 0 in \<^verbatim>\<open>x || 0\<close> and in \<^verbatim>\<open>x + 1\<close>.
\<close>

datatype toast = Toast_success string | Toast_error string

definition num_or_0 :: "int option \<Rightarrow> int" where
  "num_or_0 x = (case x of None \<Rightarrow> 0 | Some n \<Rightarrow> n)"

definition incrementViewCount :: "actor \<Rightarrow> question option \<Rightarrow> uuid \<Rightarrow> db \<Rightarrow> db" where
  "incrementViewCount uid question route_id d =
     snd (update_questions uid (\<lambda>q. q_id q = route_id)
            (\<lambda>q. q\<lparr>q_view_count :=
                     Some ((case question of None \<Rightarrow> 0 | Some c \<Rightarrow> num_or_0 (q_view_count c)) + 1)\<rparr>)
            d)"

text \<open>
  \<^verbatim>\<open>answers.find(...)?.upvotes + 1\<close> is NaN when the answer is not in the page's list, and
  NaN is sent as \<^verbatim>\<open>null\<close>.
\<close>

definition upvoteAnswer :: "actor \<Rightarrow> answer list \<Rightarrow> uuid \<Rightarrow> db \<Rightarrow> db" where
  "upvoteAnswer user answers_state answerId d =
     (case user of None \<Rightarrow> d
      | Some u \<Rightarrow>
          snd (update_answers user (\<lambda>a. a_id a = answerId)
                 (\<lambda>a. a\<lparr>a_upvotes :=
                          (case find (\<lambda>c. a_id c = answerId) answers_state of
                             None \<Rightarrow> None
                           | Some c \<Rightarrow> Some (num_or_0 (a_upvotes c) + 1))\<rparr>)
                 d))"

definition acceptAnswer ::
  "actor \<Rightarrow> question option \<Rightarrow> uuid \<Rightarrow> uuid \<Rightarrow> db \<Rightarrow> toast option \<times> db" where
  "acceptAnswer user question route_id answerId d =
     (case user of None \<Rightarrow> (None, d)
      | Some u \<Rightarrow>
     (case question of None \<Rightarrow> (None, d)
      | Some q \<Rightarrow>
          if q_user_id q \<noteq> u then (None, d)
          else
            let d1 = snd (update_answers user (\<lambda>a. a_question_id a = route_id)
                            (\<lambda>a. a\<lparr>a_is_accepted := False\<rparr>) d);
                r2 = update_answers user (\<lambda>a. a_id a = answerId)
                            (\<lambda>a. a\<lparr>a_is_accepted := True\<rparr>) d1
            in (case fst r2 of
                  Some e \<Rightarrow> (Some (Toast_error ''Failed to accept answer. Please try again.''), snd r2)
                | None \<Rightarrow>
                    (Some (Toast_success ''Answer accepted!''),
                     snd (update_questions user (\<lambda>q. q_id q = route_id)
                            (\<lambda>q. q\<lparr>q_is_resolved := True\<rparr>) (snd r2))))))"

subsection \<open>Resources.tsx\<close>

definition downloadResource :: "actor \<Rightarrow> resource list \<Rightarrow> uuid \<Rightarrow> db \<Rightarrow> db" where
  "downloadResource uid resources_state resourceId d =
     (case find (\<lambda>r. r_id r = resourceId) resources_state of
        None \<Rightarrow> d
      | Some c \<Rightarrow>
          snd (update_resources uid (\<lambda>r. r_id r = resourceId)
                 (\<lambda>r. r\<lparr>r_download_count := Some (num_or_0 (r_download_count c) + 1)\<rparr>) d))"

subsection \<open>StudyGroups.tsx\<close>

text \<open>
  \<^verbatim>\<open>joinGroup\<close> returns at once for a visitor who is not signed in; otherwise it inserts
  the membership row and either logs the store's error to the console or fetches the groups
  again.
\<close>

datatype join_outcome = Join_returned | Join_logged pg_error | Join_refetched

definition joinGroup :: "actor \<Rightarrow> uuid \<Rightarrow> db \<Rightarrow> join_outcome \<times> db" where
  "joinGroup user groupId d =
     (case user of None \<Rightarrow> (Join_returned, d)
      | Some u \<Rightarrow>
          let r = insert_group_member user
                    \<lparr>gm_group_id = groupId, gm_user_id = u, gm_role = Some Member\<rparr> d
          in (case fst r of Some e \<Rightarrow> (Join_logged e, snd r) | None \<Rightarrow> (Join_refetched, snd r)))"

subsection \<open>Profile.tsx: badge progress\<close>

text \<open>
  \<^verbatim>\<open>userStats[badge.requirement_type]\<close> is a number for the four counted activities and
  \<^verbatim>\<open>undefined\<close> for \<^verbatim>\<open>points\<close>; the check constraint of \<^verbatim>\<open>badges\<close> admits no
  other requirement type. The four counts are numbers (\<^verbatim>\<open>count || 0\<close>).
\<close>

record user_stats =
  questions_asked :: int
  answers_given :: int
  answers_accepted :: int
  resources_shared :: int

definition stats_lookup :: "user_stats \<Rightarrow> string \<Rightarrow> int option" where
  "stats_lookup s k =
     (if k = ''questions_asked'' then Some (questions_asked s)
      else if k = ''answers_given'' then Some (answers_given s)
      else if k = ''answers_accepted'' then Some (answers_accepted s)
      else if k = ''resources_shared'' then Some (resources_shared s)
      else None)"

text \<open>
  JavaScript numbers are IEEE 754 doubles: every division and multiplication yields the
  double nearest to the exact result, ties going to the even significand. A finite double
  is the rational it denotes. For a positive \<open>x\<close> with \<open>2 ^ e \<le> x < 2 ^ (e + 1)\<close> the
  doubles around \<open>x\<close> are the multiples of \<open>2 ^ (e - 52)\<close>. The operands here are
  integers of the store and of row counts, far inside the range where a double has its full
  53 bits, so overflow and subnormal numbers do not arise.
\<close>

fun bit_length :: "nat \<Rightarrow> nat" where
  "bit_length n = (if n = 0 then 0 else Suc (bit_length (n div 2)))"

declare bit_length.simps [simp del]

definition pow2 :: "int \<Rightarrow> rat" where
  "pow2 e = (if 0 \<le> e then 2 ^ nat e else 1 / 2 ^ nat (- e))"

definition binary_exponent :: "rat \<Rightarrow> int" where
  \<comment> \<open>for \<open>0 < x\<close>: the \<open>e\<close> with \<open>2 ^ e \<le> x < 2 ^ (e + 1)\<close>\<close>
  "binary_exponent x =
     (if 1 \<le> x then int (bit_length (nat \<lfloor>x\<rfloor>)) - 1
      else - int (bit_length (nat (\<lceil>1 / x\<rceil> - 1))))"

definition round_half_even :: "rat \<Rightarrow> int" where
  "round_half_even m =
     (let n = \<lfloor>m\<rfloor>; r = m - of_int n
      in if r < 1 / 2 then n else if 1 / 2 < r then n + 1 else if even n then n else n + 1)"

definition round_double_pos :: "rat \<Rightarrow> rat" where
  "round_double_pos x =
     (let ulp = pow2 (binary_exponent x - 52) in of_int (round_half_even (x / ulp)) * ulp)"

definition round_double :: "rat \<Rightarrow> rat" where
  "round_double x =
     (if x = 0 then 0 else if x < 0 then - round_double_pos (- x) else round_double_pos x)"

text \<open>
  A JavaScript number, as far as \<^verbatim>\<open>Math.min(x / y * 100, 100)\<close> can produce one.
\<close>

datatype js_number = Finite rat | NaN | Neg_infinity

text \<open>
  \<^verbatim>\<open>userStats[...] || profile?.points || 0\<close>: an operand that is \<^verbatim>\<open>undefined\<close>,
  \<^verbatim>\<open>null\<close> or 0 is falsy, and \<^verbatim>\<open>||\<close> then yields its right operand.
\<close>

definition progress_current_value :: "user_stats \<Rightarrow> profile option \<Rightarrow> badge \<Rightarrow> int" where
  "progress_current_value userStats profile_state b =
     (let points_or_0 = (case profile_state of None \<Rightarrow> 0 | Some p \<Rightarrow> num_or_0 (p_points p))
      in case stats_lookup userStats (b_requirement_type b) of
           None \<Rightarrow> points_or_0
         | Some n \<Rightarrow> if n \<noteq> 0 then n else points_or_0)"

definition getProgressToNextBadge :: "user_stats \<Rightarrow> profile option \<Rightarrow> badge \<Rightarrow> js_number" where
  "getProgressToNextBadge userStats profile_state b =
     (let currentValue = progress_current_value userStats profile_state b;
          v = b_requirement_value b
      in if v = 0
         then (if currentValue = 0 then NaN
               else if 0 < currentValue then Finite 100 else Neg_infinity)
         else Finite (min (round_double (round_double (of_int currentValue / of_int v) * 100))
                        100))"

text \<open>
  The badge list of the same page prints \<^verbatim>\<open>currentValue/requirement_value\<close> beside the
  bar, with its own \<^verbatim>\<open>currentValue\<close>: the points for a points badge, otherwise
  \<^verbatim>\<open>userStats[...] || 0\<close>. The page renders the list only once the profile is loaded.
\<close>

definition displayed_current_value :: "user_stats \<Rightarrow> profile \<Rightarrow> badge \<Rightarrow> int option" where
  "displayed_current_value userStats p b =
     (if b_requirement_type b = ''points'' then p_points p
      else Some (num_or_0 (stats_lookup userStats (b_requirement_type b))))"

text \<open>
  The specification's progress: the metric named by the requirement type, read from the point
  total for \<^verbatim>\<open>points\<close> and from the matching count otherwise, over the threshold and
  clamped at 1; as a percentage.
\<close>

definition spec_current :: "user_stats \<Rightarrow> profile \<Rightarrow> badge \<Rightarrow> int" where
  "spec_current userStats p b =
     (if b_requirement_type b = ''points'' then num_or_0 (p_points p)
      else num_or_0 (stats_lookup userStats (b_requirement_type b)))"

definition spec_progress_percent :: "user_stats \<Rightarrow> profile \<Rightarrow> badge \<Rightarrow> rat" where
  "spec_progress_percent userStats p b =
     min (of_int (spec_current userStats p b) / of_int (b_requirement_value b)) 1 * 100"

subsection \<open>GroupDetail: the first load of the chat\<close>

text \<open>
  \<^verbatim>\<open>.eq('group_id', id).order('created_at', { ascending: true }).limit(50)\<close> on
  \<^verbatim>\<open>messages\<close>: the rows the actor can read, sorted ascending, cut after the first 50.
  Rows with equal timestamps keep their table order here. The profiles of the senders are
  then fetched and attached; a sender without a visible profile is shown as Unknown User.
  When the query fails the error is thrown and logged, and the page's list, empty at first,
  is not set: that is the result \<open>Inl\<close>.
\<close>

definition fetchMessages :: "actor \<Rightarrow> uuid \<Rightarrow> db \<Rightarrow> pg_error + (message \<times> string) list" where
  "fetchMessages uid gid d =
     (case select_messages uid (\<lambda>m. m_group_id m = gid) d of
        Inl error \<Rightarrow> Inl error
      | Inr rows \<Rightarrow>
          (let data = take 50 (sort_key m_created_at rows);
               userIds = remdups (map m_user_id data);
               profs = filter (\<lambda>p. List.member userIds (p_user_id p) \<and>
                                    passes (profiles_select_using uid p)) (profiles d)
           in Inr (map (\<lambda>m. (m, case find (\<lambda>p. p_user_id p = m_user_id m) profs of
                                   None \<Rightarrow> ''Unknown User''
                                 | Some p \<Rightarrow> p_full_name p)) data)))"

text \<open>
  The specification's window: for a member of the group, its 50 most recent messages in
  ascending order of time.
\<close>

definition spec_initial_window :: "actor \<Rightarrow> uuid \<Rightarrow> db \<Rightarrow> message list" where
  "spec_initial_window uid gid d =
     (if spec_is_member uid gid d
      then (let xs = sort_key m_created_at (filter (\<lambda>m. m_group_id m = gid) (messages d))
            in drop (length xs - 50) xs)
      else [])"

subsection \<open>The suggestion proxy (the \<^verbatim>\<open>serve\<close> handler of the edge function)\<close>

text \<open>
  JSON values as \<^verbatim>\<open>JSON.parse\<close> and \<^verbatim>\<open>req.json()\<close> produce them; the keys of an
  object are distinct. A JavaScript value that may be \<^verbatim>\<open>undefined\<close> is a
  \<open>json option\<close>.
\<close>

datatype json = JNull | JBool bool | JNum rat | JStr string | JArr "json list"
  | JObj "(string \<times> json) list"

type_synonym js_value = "json option"

text \<open>
  The handler reads one thing of a caught exception, its \<^verbatim>\<open>message\<close>. An exception
  raised by \<^verbatim>\<open>req.json()\<close>, by \<^verbatim>\<open>fetch\<close>, by \<^verbatim>\<open>response.json()\<close> or by the
  handler's own \<^verbatim>\<open>throw\<close> is \<open>Thrown\<close> with that message. A TypeError raised by the
  language itself is \<open>Thrown_type_error\<close> with its cause; the wording of its message
  belongs to the engine and is the parameter \<open>engine_message\<close> of the handler.
\<close>

datatype nullish = Undefined | Null

datatype type_error =
    Cannot_destructure nullish
  | Cannot_read nullish string
  | Cannot_convert_to_primitive

datatype thrown = Thrown string | Thrown_type_error type_error

type_synonym 'a thrown_or = "thrown + 'a"

definition error_message :: "(type_error \<Rightarrow> string) \<Rightarrow> thrown \<Rightarrow> string" where
  "error_message engine_message e =
     (case e of Thrown m \<Rightarrow> m | Thrown_type_error t \<Rightarrow> engine_message t)"

record request =
  req_method :: string
  req_json :: "json thrown_or"

record response =
  resp_status :: nat
  resp_headers :: "(string \<times> string) list"
  resp_body :: "json option"

definition corsHeaders :: "(string \<times> string) list" where
  "corsHeaders = [(''Access-Control-Allow-Origin'', ''*''),
     (''Access-Control-Allow-Headers'', ''authorization, x-client-info, apikey, content-type'')]"

text \<open>
  Reading a property. The handler reads \<^verbatim>\<open>type\<close>, \<^verbatim>\<open>content\<close>, \<^verbatim>\<open>subject\<close>,
  \<^verbatim>\<open>choices\<close> and \<^verbatim>\<open>message\<close>, which only an object can have, and the index 0, which
  an array, a string and an object can have. Reading a property of \<^verbatim>\<open>undefined\<close> or
  \<^verbatim>\<open>null\<close> throws a TypeError.
\<close>

definition own_prop :: "json \<Rightarrow> string \<Rightarrow> js_value" where
  "own_prop v k = (case v of JObj kvs \<Rightarrow> map_of kvs k | _ \<Rightarrow> None)"

definition index0 :: "json \<Rightarrow> js_value" where
  "index0 v =
     (case v of
        JObj kvs \<Rightarrow> map_of kvs ''0''
      | JArr xs \<Rightarrow> (case xs of [] \<Rightarrow> None | x # _ \<Rightarrow> Some x)
      | JStr cs \<Rightarrow> (case cs of [] \<Rightarrow> None | c # _ \<Rightarrow> Some (JStr [c]))
      | _ \<Rightarrow> None)"

definition nullish_of :: "js_value \<Rightarrow> nullish option" where
  "nullish_of v =
     (case v of None \<Rightarrow> Some Undefined | Some JNull \<Rightarrow> Some Null | Some _ \<Rightarrow> None)"

definition get_prop :: "js_value \<Rightarrow> string \<Rightarrow> js_value thrown_or" where
  "get_prop v k =
     (case v of None \<Rightarrow> Inl (Thrown_type_error (Cannot_read Undefined k))
      | Some JNull \<Rightarrow> Inl (Thrown_type_error (Cannot_read Null k))
      | Some obj \<Rightarrow> Inr (own_prop obj k))"

definition get_index0 :: "js_value \<Rightarrow> js_value thrown_or" where
  "get_index0 v =
     (case v of None \<Rightarrow> Inl (Thrown_type_error (Cannot_read Undefined ''0''))
      | Some JNull \<Rightarrow> Inl (Thrown_type_error (Cannot_read Null ''0''))
      | Some obj \<Rightarrow> Inr (index0 obj))"

definition js_truthy :: "js_value \<Rightarrow> bool" where
  "js_truthy v =
     (case v of None \<Rightarrow> False
      | Some JNull \<Rightarrow> False
      | Some (JBool b) \<Rightarrow> b
      | Some (JNum n) \<Rightarrow> n \<noteq> 0
      | Some (JStr cs) \<Rightarrow> cs \<noteq> []
      | Some _ \<Rightarrow> True)"

text \<open>
  A template literal converts each spliced value to a string. The conversion of an object
  calls its \<^verbatim>\<open>toString\<close>; an object of JSON that has a key \<^verbatim>\<open>toString\<close> carries a
  value there that cannot be called, and as neither its \<^verbatim>\<open>valueOf\<close> yields a primitive,
  the conversion throws a TypeError. The conversion of an array joins the conversions of its
  elements. Every other value, \<^verbatim>\<open>undefined\<close> too, converts. The engine's limits
  on the depth of nesting are not part of the model.
\<close>

fun to_string_throws :: "json \<Rightarrow> bool" where
  "to_string_throws (JObj kvs) = (map_of kvs ''toString'' \<noteq> None)"
| "to_string_throws (JArr xs) = list_ex to_string_throws xs"
| "to_string_throws _ = False"

definition splice_throws :: "js_value \<Rightarrow> bool" where
  "splice_throws v = (case v of None \<Rightarrow> False | Some j \<Rightarrow> to_string_throws j)"

text \<open>
  The prompt is one of three fixed templates with \<^verbatim>\<open>content\<close> and
  \<^verbatim>\<open>subject || 'General'\<close> spliced in, in this order; it is kept as the template's name
  and the two spliced values. Any other \<^verbatim>\<open>type\<close> reaches the \<^verbatim>\<open>default\<close> branch,
  which throws before anything is spliced.
\<close>

datatype template = Question_improvement | Answer_hints | Study_plan

record prompt =
  pr_template :: template
  pr_content :: js_value
  pr_subject :: json

definition subject_or_general :: "js_value \<Rightarrow> json" where
  "subject_or_general subject =
     (case subject of None \<Rightarrow> JStr ''General''
      | Some v \<Rightarrow> if js_truthy (Some v) then v else JStr ''General'')"

definition template_of :: "js_value \<Rightarrow> template thrown_or" where
  "template_of type =
     (if type = Some (JStr ''question-improvement'') then Inr Question_improvement
      else if type = Some (JStr ''answer-hints'') then Inr Answer_hints
      else if type = Some (JStr ''study-plan'') then Inr Study_plan
      else Inl (Thrown ''Invalid suggestion type''))"

text \<open>
  \<^verbatim>\<open>const { type, content, subject } = await req.json()\<close> throws a TypeError for
  \<^verbatim>\<open>null\<close> and reads three properties of anything else.
\<close>

definition build_prompt :: "json \<Rightarrow> prompt thrown_or" where
  "build_prompt body =
     (if body = JNull then Inl (Thrown_type_error (Cannot_destructure Null))
      else
        let type = own_prop body ''type'';
            content = own_prop body ''content'';
            subject = own_prop body ''subject''
        in (case template_of type of Inl e \<Rightarrow> Inl e
            | Inr t \<Rightarrow>
                if splice_throws content then Inl (Thrown_type_error Cannot_convert_to_primitive)
                else if splice_throws (Some (subject_or_general subject))
                  then Inl (Thrown_type_error Cannot_convert_to_primitive)
                else Inr \<lparr>pr_template = t, pr_content = content,
                          pr_subject = subject_or_general subject\<rparr>))"

text \<open>\<^verbatim>\<open>data.choices[0].message.content\<close>\<close>

definition completion_content :: "json \<Rightarrow> js_value thrown_or" where
  "completion_content data =
     (case get_prop (Some data) ''choices'' of Inl e \<Rightarrow> Inl e
      | Inr choices \<Rightarrow>
     (case get_index0 choices of Inl e \<Rightarrow> Inl e
      | Inr first \<Rightarrow>
     (case get_prop first ''message'' of Inl e \<Rightarrow> Inl e
      | Inr msg \<Rightarrow> get_prop msg ''content'')))"

text \<open>
  \<^verbatim>\<open>JSON.parse\<close> is the parameter \<open>json_parse\<close>, \<open>None\<close> where it throws.
  When it throws the suggestion is \<^verbatim>\<open>{ content: suggestion }\<close>, which
  \<^verbatim>\<open>JSON.stringify\<close> writes without the key if the value is \<^verbatim>\<open>undefined\<close>.
\<close>

definition content_wrapper :: "js_value \<Rightarrow> json" where
  "content_wrapper suggestion =
     JObj (case suggestion of None \<Rightarrow> [] | Some v \<Rightarrow> [(''content'', v)])"

definition parse_suggestion :: "(js_value \<Rightarrow> json option) \<Rightarrow> js_value \<Rightarrow> json" where
  "parse_suggestion json_parse suggestion =
     (case json_parse suggestion of Some parsed \<Rightarrow> parsed
      | None \<Rightarrow> content_wrapper suggestion)"

text \<open>
  The body of the \<^verbatim>\<open>try\<close> block. The upstream call is a parameter: given the prompt,
  \<^verbatim>\<open>fetch\<close> followed by \<^verbatim>\<open>response.json()\<close> either throws or yields the decoded
  reply. The handler does not look at the reply's status.
\<close>

definition try_block ::
  "(js_value \<Rightarrow> json option) \<Rightarrow> (prompt \<Rightarrow> json thrown_or) \<Rightarrow> request \<Rightarrow> json thrown_or" where
  "try_block json_parse upstream req =
     (case req_json req of Inl e \<Rightarrow> Inl e
      | Inr body \<Rightarrow>
     (case build_prompt body of Inl e \<Rightarrow> Inl e
      | Inr p \<Rightarrow>
     (case upstream p of Inl e \<Rightarrow> Inl e
      | Inr data \<Rightarrow>
     (case completion_content data of Inl e \<Rightarrow> Inl e
      | Inr suggestion \<Rightarrow> Inr (parse_suggestion json_parse suggestion)))))"

definition success_response :: "json \<Rightarrow> response" where
  "success_response suggestion =
     \<lparr>resp_status = 200,
      resp_headers = corsHeaders @ [(''Content-Type'', ''application/json'')],
      resp_body = Some (JObj [(''success'', JBool True), (''suggestion'', suggestion)])\<rparr>"

definition failure_response :: "string \<Rightarrow> response" where
  "failure_response msg =
     \<lparr>resp_status = 500,
      resp_headers = corsHeaders @ [(''Content-Type'', ''application/json'')],
      resp_body = Some (JObj [(''success'', JBool False), (''error'', JStr msg)])\<rparr>"

definition options_response :: response where
  "options_response = \<lparr>resp_status = 200, resp_headers = corsHeaders, resp_body = None\<rparr>"

definition serve_handler ::
  "(type_error \<Rightarrow> string) \<Rightarrow> (js_value \<Rightarrow> json option) \<Rightarrow> (prompt \<Rightarrow> json thrown_or) \<Rightarrow>
   request \<Rightarrow> response" where
  "serve_handler engine_message json_parse upstream req =
     (if req_method req = ''OPTIONS'' then options_response
      else (case try_block json_parse upstream req of
              Inr suggestion \<Rightarrow> success_response suggestion
            | Inl error \<Rightarrow> failure_response (error_message engine_message error)))"

subsection \<open>Example stores\<close>

definition empty_db :: db where
  "empty_db = \<lparr>questions = [], answers = [], study_groups = [], group_members = [],
     resources = [], messages = [], profiles = [], notifications = [], user_badges = []\<rparr>"

text \<open>User 1 asked question 100; user 2 posted answers 201 and 202 to it.\<close>

definition q100 :: question where
  "q100 = \<lparr>q_id = 100, q_user_id = 1, q_title = ''Q1'', q_content = ''?'',
     q_view_count = Some 5, q_upvotes = Some 0, q_is_resolved = False\<rparr>"

definition a201 :: answer where
  "a201 = \<lparr>a_id = 201, a_question_id = 100, a_user_id = 2, a_content = ''R1'',
     a_upvotes = Some 0, a_is_accepted = False\<rparr>"

definition a202 :: answer where
  "a202 = \<lparr>a_id = 202, a_question_id = 100, a_user_id = 2, a_content = ''R2'',
     a_upvotes = Some 0, a_is_accepted = False\<rparr>"

definition qa_db :: db where
  "qa_db = empty_db\<lparr>questions := [q100], answers := [a201, a202]\<rparr>"

text \<open>Group 10 is private, created by user 1, and full: two members, \<^verbatim>\<open>max_members\<close> 2.\<close>

definition g10 :: study_group where
  "g10 = \<lparr>sg_id = 10, sg_name = ''G'', sg_creator_id = 1, sg_max_members = Some 2,
     sg_privacy = Some Private\<rparr>"

definition full_group_db :: db where
  "full_group_db = empty_db\<lparr>study_groups := [g10],
     group_members := [\<lparr>gm_group_id = 10, gm_user_id = 1, gm_role = Some Admin\<rparr>,
                       \<lparr>gm_group_id = 10, gm_user_id = 2, gm_role = Some Member\<rparr>]\<rparr>"

text \<open>Resource 300 of user 1 has been downloaded five times.\<close>

definition r300 :: resource where
  "r300 = \<lparr>r_id = 300, r_user_id = 1, r_title = ''notes'', r_download_count = Some 5\<rparr>"

definition res_db :: db where
  "res_db = empty_db\<lparr>resources := [r300]\<rparr>"

text \<open>
  The badge Question Guru of the seed data; a user with five points who has asked nothing.
\<close>

definition question_guru :: badge where
  "question_guru = \<lparr>b_id = 7, b_name = ''Question Guru'',
     b_requirement_type = ''questions_asked'', b_requirement_value = 10\<rparr>"

definition no_activity :: user_stats where
  "no_activity = \<lparr>questions_asked = 0, answers_given = 0, answers_accepted = 0,
     resources_shared = 0\<rparr>"

definition five_points :: profile where
  "five_points = \<lparr>p_user_id = 1, p_full_name = ''Student'', p_points = Some 5\<rparr>"

text \<open>Group 10 with its member 1, who has sent 51 messages at the times 1 to 51.\<close>

definition chat_message :: "nat \<Rightarrow> message" where
  "chat_message t = \<lparr>m_id = t, m_group_id = 10, m_user_id = 1, m_content = ''hi'',
     m_created_at = t\<rparr>"

definition chat_db :: db where
  "chat_db = empty_db\<lparr>study_groups := [g10],
     group_members := [\<lparr>gm_group_id = 10, gm_user_id = 1, gm_role = Some Admin\<rparr>],
     messages := map chat_message [1..<52],
     profiles := [five_points]\<rparr>"


text \<open>
  Requests to the proxy, a reply of the upstream API that carries the completion \<open>c\<close>, and
  a stand-in for \<^verbatim>\<open>JSON.parse\<close> that reads the text \<^verbatim>\<open>[1]\<close> and rejects anything
  else. The messages of the TypeErrors are those of V8, the engine the function runs on.
\<close>

definition reply_with :: "json \<Rightarrow> json" where
  "reply_with c = JObj [(''choices'',
     JArr [JObj [(''message'', JObj [(''role'', JStr ''assistant''), (''content'', c)])]])]"

definition parse_example :: "js_value \<Rightarrow> json option" where
  "parse_example v = (if v = Some (JStr ''[1]'') then Some (JArr [JNum 1]) else None)"

definition post_body :: "string \<Rightarrow> json \<Rightarrow> json" where
  "post_body t c = JObj [(''type'', JStr t), (''content'', c)]"

definition post_request :: "json \<Rightarrow> request" where
  "post_request body = \<lparr>req_method = ''POST'', req_json = Inr body\<rparr>"

definition options_request :: request where
  "options_request =
     \<lparr>req_method = ''OPTIONS'', req_json = Inl (Thrown ''Unexpected end of JSON input'')\<rparr>"

definition nullish_name :: "nullish \<Rightarrow> string" where
  "nullish_name n = (case n of Undefined \<Rightarrow> ''undefined'' | Null \<Rightarrow> ''null'')"

definition v8_message :: "type_error \<Rightarrow> string" where
  "v8_message t =
     (case t of
        Cannot_read n k \<Rightarrow>
          ''Cannot read properties of '' @ nullish_name n @ '' (reading '' @ [CHR 0x27] @ k
            @ [CHR 0x27] @ '')''
      | Cannot_destructure n \<Rightarrow>
          ''Cannot destructure property '' @ [CHR 0x27] @ ''type'' @ [CHR 0x27] @ '' of ''
            @ [CHR 0x27] @ ''(intermediate value)'' @ [CHR 0x27] @ '' as it is ''
            @ nullish_name n @ ''.''
      | Cannot_convert_to_primitive \<Rightarrow> ''Cannot convert object to primitive value'')"

section \<open>Properties\<close>

lemmas store_defs = update_answers_def update_questions_def update_resources_def
  questions_update_using_def answers_update_using_def resources_update_using_def int4_def
lemmas example_defs = qa_db_def q100_def a201_def a202_def empty_db_def g10_def
  full_group_db_def r300_def res_db_def

lemma passes_sql_eq: "passes (sql_eq a b) = (a \<noteq> None \<and> a = b)"
  by (cases a; cases b) (auto simp: passes_def sql_eq_def)

lemma passes_sql_or: "passes (sql_or a b) = (passes a \<or> passes b)"
  by (auto simp: passes_def sql_or_def)

lemma passes_sql_and: "passes (sql_and a b) = (passes a \<and> passes b)"
  by (cases a; cases b) (auto simp: passes_def sql_and_def)

lemma passes_Some: "passes (Some b) = b"
  by (simp add: passes_def)

lemma map_skip_all:
  assumes "\<And>x. x \<in> set xs \<Longrightarrow> \<not> P x"
  shows "map (\<lambda>x. if P x then f x else x) xs = xs"
  using assms by (induction xs) auto

subsection \<open>Accepting an answer\<close>

text \<open>
  C1. After the asker accepts an answer, the target answer is accepted, every other answer of
  the question is not, and the question is resolved; accepting A1 and then A2 leaves A2 alone
  accepted. The code does not do this when the answer was written by someone else, which is
  the case the Accept button exists for: the update policy of \<^verbatim>\<open>answers\<close> lets a user
  change only their own rows, so both updates of \<^verbatim>\<open>acceptAnswer\<close> skip the answer, no
  error is raised, the question is marked resolved and the page reports success. Here user 1
  asked question 100 and accepts the answers 201 and then 202 of user 2.
\<close>

theorem accept_by_asker_leaves_answer_unaccepted:
  "fst (acceptAnswer (Some 1) (Some q100) 100 201 qa_db) =
     Some (Toast_success ''Answer accepted!'') \<and>
   snd (acceptAnswer (Some 1) (Some q100) 100 201 qa_db) =
     qa_db\<lparr>questions := [q100\<lparr>q_is_resolved := True\<rparr>]\<rparr> \<and>
   map a_is_accepted (answers (snd (acceptAnswer (Some 1) (Some q100) 100 201 qa_db))) =
     [False, False] \<and>
   map a_is_accepted (answers (snd (acceptAnswer (Some 1) (Some q100) 100 202
        (snd (acceptAnswer (Some 1) (Some q100) 100 201 qa_db))))) = [False, False]"
  by (simp add: acceptAnswer_def store_defs passes_sql_eq example_defs Let_def)

text \<open>
  Where the asker wrote the answers too, the policy lets the updates through and the same two
  calls leave the second answer alone accepted.
\<close>

lemma accept_own_answers_example:
  "map a_is_accepted (answers (snd (acceptAnswer (Some 2) (Some (q100\<lparr>q_user_id := 2\<rparr>)) 100 202
      (snd (acceptAnswer (Some 2) (Some (q100\<lparr>q_user_id := 2\<rparr>)) 100 201
         (qa_db\<lparr>questions := [q100\<lparr>q_user_id := 2\<rparr>]\<rparr>)))))) = [False, True]"
  by (simp add: acceptAnswer_def store_defs passes_sql_eq example_defs Let_def)

text \<open>
  C2, as stated: accepting an answer creates an \<^verbatim>\<open>answer_accepted\<close> notification for the
  answer's author and awards the author a badge. In the scenario of the specification (user 1
  asks, user 2 answers, user 1 accepts) the page reports success and both tables are as empty
  afterwards as before.
\<close>

theorem accept_notifies_nobody_counterexample:
  "notifications qa_db = [] \<and> user_badges qa_db = [] \<and>
   fst (acceptAnswer (Some 1) (Some q100) 100 201 qa_db) =
     Some (Toast_success ''Answer accepted!'') \<and>
   notifications (snd (acceptAnswer (Some 1) (Some q100) 100 201 qa_db)) = [] \<and>
   user_badges (snd (acceptAnswer (Some 1) (Some q100) 100 201 qa_db)) = []"
  by (simp add: acceptAnswer_def store_defs example_defs Let_def)

text \<open>
  C2, amended: no invocation of the accept operation creates a notification or awards a
  badge; the tables \<^verbatim>\<open>notifications\<close> and \<^verbatim>\<open>user_badges\<close> are the same before and
  after it, whoever calls it and whatever the store holds.
\<close>

theorem accept_creates_no_notification_or_badge:
  "notifications (snd (acceptAnswer user question_state route_id answerId d)) = notifications d \<and>
   user_badges (snd (acceptAnswer user question_state route_id answerId d)) = user_badges d"
  by (simp add: acceptAnswer_def store_defs Let_def split: option.splits)

subsection \<open>Counters\<close>

text \<open>
  An update by an actor who owns none of the rows it addresses changes nothing: this is what
  the update policies of \<^verbatim>\<open>questions\<close> and \<^verbatim>\<open>answers\<close> make of the upvote and the
  view-count increment of any other actor.
\<close>

lemma increments_by_others_change_nothing:
  assumes "\<forall>a \<in> set (answers d). a_id a = answerId \<longrightarrow> Some (a_user_id a) \<noteq> uid"
    and "\<forall>q \<in> set (questions d). q_id q = qid \<longrightarrow> Some (q_user_id q) \<noteq> uid"
  shows "upvoteAnswer uid answers_state answerId d = d \<and>
         incrementViewCount uid question_state qid d = d"
proof -
  have a: "map (\<lambda>a. if a_id a = answerId \<and> passes (answers_update_using uid a) then f a else a)
             (answers d) = answers d" for f
    using assms(1) by (intro map_skip_all) (auto simp: answers_update_using_def passes_sql_eq)
  have q: "map (\<lambda>q. if q_id q = qid \<and> passes (questions_update_using uid q) then f q else q)
             (questions d) = questions d" for f
    using assms(2) by (intro map_skip_all) (auto simp: questions_update_using_def passes_sql_eq)
  have up: "snd (update_answers uid (\<lambda>a. a_id a = answerId) f d) = d" for f
    by (simp add: update_answers_def a)
  have uq: "snd (update_questions uid (\<lambda>q. q_id q = qid) f d) = d" for f
    by (simp add: update_questions_def q)
  have "upvoteAnswer uid answers_state answerId d =
          (if uid = None then d
           else snd (update_answers uid (\<lambda>a. a_id a = answerId)
                 (\<lambda>a. a\<lparr>a_upvotes :=
                          (case find (\<lambda>c. a_id c = answerId) answers_state of
                             None \<Rightarrow> None
                           | Some c \<Rightarrow> Some (num_or_0 (a_upvotes c) + 1))\<rparr>) d))"
    by (simp add: upvoteAnswer_def split: option.splits)
  then show ?thesis
    by (simp add: incrementViewCount_def up uq)
qed

text \<open>
  C3. Any signed-in actor may run the upvote and the view-count increment on a row that is
  not theirs, the counters being open to everyone while the content is the owner's. The page
  offers both to everyone, but the store drops them: user 1 upvoting answer 201 of user 2,
  and user 2 viewing question 100 of user 1 (before or after the page has loaded it), leave
  the store as it was, while the upvote of user 2 on their own answer is applied.
\<close>

theorem increments_by_non_owner_are_dropped:
  "upvoteAnswer (Some 1) [a201, a202] 201 qa_db = qa_db \<and>
   incrementViewCount (Some 2) None 100 qa_db = qa_db \<and>
   incrementViewCount (Some 2) (Some q100) 100 qa_db = qa_db \<and>
   map a_upvotes (answers (upvoteAnswer (Some 2) [a201, a202] 201 qa_db)) = [Some 1, Some 0]"
  by (simp add: upvoteAnswer_def incrementViewCount_def num_or_0_def store_defs passes_sql_eq
        example_defs)

text \<open>
  C6. No view-count or download-count increment writes a value below the stored one. Both
  operations write one more than the copy the page holds, not one more than the stored value.
  The view-count increment runs when the page opens, before the question has been fetched,
  so the copy is \<^verbatim>\<open>null\<close> and the owner's visit writes 1 over a stored 5; a resource list
  fetched when the count was 3 writes 4 over a stored 5.
\<close>

theorem stale_increment_lowers_counter:
  "map q_view_count (questions qa_db) = [Some 5] \<and>
   map q_view_count (questions (incrementViewCount (Some 1) None 100 qa_db)) = [Some 1] \<and>
   map r_download_count (resources res_db) = [Some 5] \<and>
   map r_download_count (resources
      (downloadResource (Some 1) [r300\<lparr>r_download_count := Some 3\<rparr>] 300 res_db)) = [Some 4]"
  by (simp add: incrementViewCount_def downloadResource_def num_or_0_def store_defs
        passes_sql_eq example_defs)

text \<open>
  An increment that would leave the 32-bit range is rejected by the store and the row keeps
  its value.
\<close>

lemma increment_beyond_int4_is_rejected:
  "fst (update_questions (Some 1) (\<lambda>q. q_id q = 100)
          (\<lambda>q. q\<lparr>q_view_count := Some (2147483647 + 1)\<rparr>) qa_db) =
     Some Numeric_value_out_of_range \<and>
   incrementViewCount (Some 1) (Some (q100\<lparr>q_view_count := Some 2147483647\<rparr>)) 100 qa_db = qa_db"
  by (simp add: incrementViewCount_def num_or_0_def store_defs passes_sql_eq example_defs)

subsection \<open>Study groups\<close>

text \<open>
  C4, as stated: a join attempt on a group whose member count equals \<^verbatim>\<open>max_members\<close>
  fails. Group 10 has \<^verbatim>\<open>max_members\<close> 2 and two members; user 3 joins it and it has three.
\<close>

theorem join_full_group_counterexample:
  "sg_max_members g10 = Some 2 \<and> member_count 10 full_group_db = 2 \<and>
   fst (joinGroup (Some 3) 10 full_group_db) = Join_refetched \<and>
   member_count 10 (snd (joinGroup (Some 3) 10 full_group_db)) = 3"
  by (simp add: joinGroup_def insert_group_member_def group_members_insert_check_def
        passes_sql_eq member_count_def example_defs Let_def)

text \<open>
  C4, amended: the join operation does not look at \<^verbatim>\<open>max_members\<close>. For an existing
  group, a signed-in actor who is not yet a member is added and the member count grows by
  one, whatever the count and the cap are; an actor who is a member already gets the
  uniqueness conflict, which is logged, and the store is unchanged.
\<close>

theorem join_ignores_max_members:
  assumes "list_ex (\<lambda>g. sg_id g = gid) (study_groups d)"
  shows "joinGroup (Some u) gid d =
           (if list_ex (\<lambda>gm. gm_group_id gm = gid \<and> gm_user_id gm = u) (group_members d)
            then (Join_logged UniqueViolation, d)
            else (Join_refetched, d\<lparr>group_members := group_members d @
                    [\<lparr>gm_group_id = gid, gm_user_id = u, gm_role = Some Member\<rparr>]\<rparr>)) \<and>
         member_count gid (snd (joinGroup (Some u) gid d)) =
           (if list_ex (\<lambda>gm. gm_group_id gm = gid \<and> gm_user_id gm = u) (group_members d)
            then member_count gid d else member_count gid d + 1)"
  using assms
  by (simp add: joinGroup_def insert_group_member_def group_members_insert_check_def
        passes_sql_eq member_count_def Let_def)

theorem join_ignores_max_members_witness:
  "sg_max_members g10 = Some (int (member_count 10 full_group_db)) \<and>
   fst (joinGroup (Some 3) 10 full_group_db) = Join_refetched \<and>
   member_count 10 (snd (joinGroup (Some 3) 10 full_group_db)) =
     member_count 10 full_group_db + 1"
proof -
  have ex: "list_ex (\<lambda>g. sg_id g = 10) (study_groups full_group_db)"
    by (simp add: example_defs)
  have new: "\<not> list_ex (\<lambda>gm. gm_group_id gm = 10 \<and> gm_user_id gm = 3)
                 (group_members full_group_db)"
    by (simp add: example_defs)
  have full: "sg_max_members g10 = Some (int (member_count 10 full_group_db))"
    by (simp add: member_count_def example_defs)
  note j = join_ignores_max_members [OF ex, of 3]
  have joined: "fst (joinGroup (Some 3) 10 full_group_db) = Join_refetched"
    using conjunct1 [OF j] new by simp
  have grown: "member_count 10 (snd (joinGroup (Some 3) 10 full_group_db)) =
     member_count 10 full_group_db + 1"
    using conjunct2 [OF j] new by simp
  show ?thesis
    using full joined grown by blast
qed

text \<open>
  C10. The insert policy of \<^verbatim>\<open>group_members\<close> checks only that the actor is the row's
  \<^verbatim>\<open>user_id\<close>. It passes for every signed-in actor inserting a row for themselves, whatever
  the role in the row and whatever the group, its privacy and its creator; what can still
  reject the insert is the uniqueness of (group, user) and the existence of the group.
\<close>

theorem self_insert_membership_allowed:
  "passes (group_members_insert_check uid gm) = (uid = Some (gm_user_id gm)) \<and>
   passes (group_members_insert_check (Some u)
             \<lparr>gm_group_id = sg_id g, gm_user_id = u, gm_role = r\<rparr>) \<and>
   insert_group_member (Some u) \<lparr>gm_group_id = sg_id g, gm_user_id = u, gm_role = r\<rparr> d =
     (if list_ex (\<lambda>gm. gm_group_id gm = sg_id g \<and> gm_user_id gm = u) (group_members d)
        then (Some UniqueViolation, d)
      else if list_ex (\<lambda>x. sg_id x = sg_id g) (study_groups d)
        then (None, d\<lparr>group_members := group_members d @
                        [\<lparr>gm_group_id = sg_id g, gm_user_id = u, gm_role = r\<rparr>]\<rparr>)
      else (Some ForeignKeyViolation, d))"
  by (cases uid) (auto simp: group_members_insert_check_def passes_sql_eq insert_group_member_def)

text \<open>User 3 enrols as admin in the private group 10 that user 1 created.\<close>

theorem self_insert_membership_allowed_witness:
  "sg_privacy g10 = Some Private \<and> sg_creator_id g10 = 1 \<and>
   insert_group_member (Some 3) \<lparr>gm_group_id = 10, gm_user_id = 3, gm_role = Some Admin\<rparr>
     full_group_db =
   (None, full_group_db\<lparr>group_members := group_members full_group_db @
            [\<lparr>gm_group_id = 10, gm_user_id = 3, gm_role = Some Admin\<rparr>]\<rparr>)"
  using self_insert_membership_allowed
    [of "Some 3" "\<lparr>gm_group_id = 10, gm_user_id = 3, gm_role = Some Admin\<rparr>" 3 g10 "Some Admin"
        full_group_db]
  by (simp add: example_defs)

text \<open>
  The read policy of \<^verbatim>\<open>study_groups\<close> has no subquery. It lets an actor, anonymous or
  not, read a group exactly when the group's privacy is public or the actor is its creator;
  an anonymous actor reads a group exactly when it is public.
\<close>

lemma study_groups_read_policy:
  "passes (study_groups_select_using uid g) = spec_may_read_group uid g \<and>
   passes (study_groups_select_using None g) = (sg_privacy g = Some Public)"
proof -
  have grp: "passes (study_groups_select_using uid g) = spec_may_read_group uid g" for uid
    by (cases uid)
       (auto simp: study_groups_select_using_def spec_may_read_group_def passes_sql_or passes_sql_eq)
  have anon_grp: "spec_may_read_group None g = (sg_privacy g = Some Public)"
    by (simp add: spec_may_read_group_def)
  show ?thesis
    using grp [of uid] grp [of None] anon_grp by simp
qed

lemma visible_group_members_recursion:
  "visible_group_members active uid d = Inl Infinite_recursion"
proof (cases "Rel_group_members \<in> set active")
  case True
  then show ?thesis by (simp add: visible_group_members.simps)
next
  case False
  have "visible_group_members (Rel_group_members # active) uid d = Inl Infinite_recursion"
    by (simp add: visible_group_members.simps)
  with False show ?thesis
    by (subst visible_group_members.simps) simp
qed

text \<open>
  C5. An actor may read a study group exactly when it is public or the actor created it, and
  may read a message exactly when the actor is a member of the message's group. The first
  half is what the policy of \<^verbatim>\<open>study_groups\<close> does. The second is what the policy Group
  members can view messages sets out to do, but its subquery reads \<^verbatim>\<open>group_members\<close>,
  whose own read policy reads \<^verbatim>\<open>group_members\<close> again: the store aborts every
  \<^verbatim>\<open>SELECT\<close> on \<^verbatim>\<open>messages\<close> with the recursion error, for any actor, filter and
  content. User 1 is a member of group 10 and cannot read its messages.
\<close>

theorem member_cannot_read_messages:
  "select_messages uid wh d = Inl Infinite_recursion \<and>
   spec_is_member (Some 1) 10 chat_db \<and>
   select_messages (Some 1) (\<lambda>m. m_group_id m = 10) chat_db = Inl Infinite_recursion"
  by (simp add: select_messages_def visible_group_members_recursion spec_is_member_def
        chat_db_def empty_db_def)

subsection \<open>Badge progress\<close>

text \<open>
  C7. The progress shown for a badge that is not yet earned is the current metric over the
  threshold, clamped at 100 per cent, the metric being the point total for a points badge and
  the matching count otherwise, also when that count is 0. With a count of 0 the bar reads the
  point total instead: for Question Guru (ten questions) a user with no question and five
  points gets a bar at 50 per cent, beside which the same page prints 0/10.
\<close>

theorem zero_count_progress_reads_points:
  "getProgressToNextBadge no_activity (Some five_points) question_guru = Finite 50 \<and>
   displayed_current_value no_activity five_points question_guru = Some 0 \<and>
   spec_progress_percent no_activity five_points question_guru = 0"
  by code_simp

text \<open>
  The bar is computed in double arithmetic: 7 of 100 gives \<^verbatim>\<open>7.000000000000001\<close>.
\<close>

lemma progress_in_double_arithmetic:
  "getProgressToNextBadge (no_activity\<lparr>questions_asked := 7\<rparr>) (Some five_points)
     (question_guru\<lparr>b_requirement_value := 100\<rparr>) =
   Finite (7881299347898369 / 1125899906842624)"
  by code_simp

subsection \<open>Chat\<close>

text \<open>
  C8. The first load of a group's chat returns the most recent 50 messages in ascending
  order of time. Group 10 holds 51 messages, sent at the times 1 to 51, and user 1 is its
  member: the most recent 50 are those of the times 2 to 51, but the query of the page is
  aborted with the recursion error of the read policy, so the page is given no message at all.
\<close>

theorem first_load_returns_no_messages:
  "length (messages chat_db) = 51 \<and>
   spec_is_member (Some 1) 10 chat_db \<and>
   map m_created_at (spec_initial_window (Some 1) 10 chat_db) = [2..<52] \<and>
   fetchMessages (Some 1) 10 chat_db = Inl Infinite_recursion"
proof -
  have "fetchMessages (Some 1) 10 chat_db = Inl Infinite_recursion"
    by (simp add: fetchMessages_def select_messages_def visible_group_members_recursion)
  moreover have "length (messages chat_db) = 51 \<and>
       spec_is_member (Some 1) 10 chat_db \<and>
       map m_created_at (spec_initial_window (Some 1) 10 chat_db) = [2..<52]"
    by code_simp
  ultimately show ?thesis by simp
qed

subsection \<open>The suggestion proxy\<close>

lemma get_prop_value:
  "v \<noteq> JNull \<Longrightarrow> get_prop (Some v) k = Inr (own_prop v k)"
  by (cases v) (simp_all add: get_prop_def)

lemma get_index0_value:
  "v \<noteq> JNull \<Longrightarrow> get_index0 (Some v) = Inr (index0 v)"
  by (cases v) (simp_all add: get_index0_def)

lemma get_prop_nullish:
  "nullish_of v = Some n \<Longrightarrow> get_prop v k = Inl (Thrown_type_error (Cannot_read n k))"
  by (auto simp: nullish_of_def get_prop_def split: option.splits json.splits)

lemma get_index0_nullish:
  "nullish_of v = Some n \<Longrightarrow> get_index0 v = Inl (Thrown_type_error (Cannot_read n ''0''))"
  by (auto simp: nullish_of_def get_index0_def split: option.splits json.splits)

lemma build_prompt_null:
  "build_prompt JNull = Inl (Thrown_type_error (Cannot_destructure Null))"
  by (simp add: build_prompt_def)

lemma build_prompt_invalid:
  assumes "body \<noteq> JNull"
    and "own_prop body ''type'' \<noteq> Some (JStr ''question-improvement'')"
    and "own_prop body ''type'' \<noteq> Some (JStr ''answer-hints'')"
    and "own_prop body ''type'' \<noteq> Some (JStr ''study-plan'')"
  shows "build_prompt body = Inl (Thrown ''Invalid suggestion type'')"
  using assms by (simp add: build_prompt_def template_of_def Let_def)

lemma build_prompt_splice:
  assumes "body \<noteq> JNull" and "template_of (own_prop body ''type'') = Inr tmpl"
    and "splice_throws (own_prop body ''content'') \<or>
         splice_throws (Some (subject_or_general (own_prop body ''subject'')))"
  shows "build_prompt body = Inl (Thrown_type_error Cannot_convert_to_primitive)"
  using assms by (auto simp: build_prompt_def Let_def)

lemma build_prompt_ok:
  assumes "body \<noteq> JNull" and "template_of (own_prop body ''type'') = Inr tmpl"
    and "\<not> splice_throws (own_prop body ''content'')"
    and "\<not> splice_throws (Some (subject_or_general (own_prop body ''subject'')))"
  shows "build_prompt body =
           Inr \<lparr>pr_template = tmpl, pr_content = own_prop body ''content'',
                pr_subject = subject_or_general (own_prop body ''subject'')\<rparr>"
  using assms by (simp add: build_prompt_def Let_def)

lemma completion_content_null:
  "completion_content JNull = Inl (Thrown_type_error (Cannot_read Null ''choices''))"
  by (simp add: completion_content_def get_prop_def)

lemma completion_content_no_choices:
  assumes "data \<noteq> JNull" and "nullish_of (own_prop data ''choices'') = Some n"
  shows "completion_content data = Inl (Thrown_type_error (Cannot_read n ''0''))"
  using assms by (simp add: completion_content_def get_prop_value get_index0_nullish)

lemma completion_content_no_first:
  assumes "data \<noteq> JNull" and "own_prop data ''choices'' = Some choices" and "choices \<noteq> JNull"
    and "nullish_of (index0 choices) = Some n"
  shows "completion_content data = Inl (Thrown_type_error (Cannot_read n ''message''))"
  using assms
  by (simp add: completion_content_def get_prop_value get_index0_value get_prop_nullish)

lemma completion_content_no_message:
  assumes "data \<noteq> JNull" and "own_prop data ''choices'' = Some choices" and "choices \<noteq> JNull"
    and "index0 choices = Some first" and "first \<noteq> JNull"
    and "nullish_of (own_prop first ''message'') = Some n"
  shows "completion_content data = Inl (Thrown_type_error (Cannot_read n ''content''))"
  using assms
  by (simp add: completion_content_def get_prop_value get_index0_value get_prop_nullish)

lemma completion_content_ok:
  assumes "data \<noteq> JNull" and "own_prop data ''choices'' = Some choices" and "choices \<noteq> JNull"
    and "index0 choices = Some first" and "first \<noteq> JNull"
    and "own_prop first ''message'' = Some msg" and "msg \<noteq> JNull"
  shows "completion_content data = Inr (own_prop msg ''content'')"
  using assms
  by (simp add: completion_content_def get_prop_value get_index0_value)

text \<open>
  C9. An \<^verbatim>\<open>OPTIONS\<close> request gets an empty response with status 200. Any other request
  (a \<^verbatim>\<open>POST\<close> among them) gets status 200 and \<^verbatim>\<open>{success: true, suggestion}\<close> when
  its body names one of the three suggestion types, its content and subject can be spliced
  into the prompt, and the upstream reply carries \<^verbatim>\<open>choices[0].message\<close>; the suggestion
  is the completion parsed, or \<^verbatim>\<open>{content: completion}\<close> when parsing throws. Every other
  request gets status 500 and \<^verbatim>\<open>{success: false, error: message}\<close> with the message of
  what was thrown: by reading the request body, by destructuring a \<^verbatim>\<open>null\<close> body, by the
  \<^verbatim>\<open>default\<close> branch for a type that is none of the three (whatever the body is), by
  splicing, by the upstream call, or by reading a reply that lacks a part. The cases cover
  every request, so the handler always answers.
\<close>

theorem suggestion_proxy_responses:
  "(req_method req = ''OPTIONS'' \<longrightarrow> serve_handler E jp up req = options_response) \<and>
   (req_method req \<noteq> ''OPTIONS'' \<longrightarrow>
     (req_json req = Inl e \<longrightarrow>
        serve_handler E jp up req = failure_response (error_message E e)) \<and>
     (req_json req = Inr JNull \<longrightarrow>
        serve_handler E jp up req = failure_response (E (Cannot_destructure Null))) \<and>
     (req_json req = Inr body \<and> body \<noteq> JNull \<longrightarrow>
       (own_prop body ''type'' \<noteq> Some (JStr ''question-improvement'') \<and>
        own_prop body ''type'' \<noteq> Some (JStr ''answer-hints'') \<and>
        own_prop body ''type'' \<noteq> Some (JStr ''study-plan'') \<longrightarrow>
          serve_handler E jp up req = failure_response ''Invalid suggestion type'') \<and>
       (template_of (own_prop body ''type'') = Inr tmpl \<longrightarrow>
         (splice_throws (own_prop body ''content'') \<or>
          splice_throws (Some (subject_or_general (own_prop body ''subject''))) \<longrightarrow>
            serve_handler E jp up req = failure_response (E Cannot_convert_to_primitive)) \<and>
         (\<not> splice_throws (own_prop body ''content'') \<and>
          \<not> splice_throws (Some (subject_or_general (own_prop body ''subject''))) \<longrightarrow>
           (up \<lparr>pr_template = tmpl, pr_content = own_prop body ''content'',
               pr_subject = subject_or_general (own_prop body ''subject'')\<rparr> = Inl e' \<longrightarrow>
              serve_handler E jp up req = failure_response (error_message E e')) \<and>
           (up \<lparr>pr_template = tmpl, pr_content = own_prop body ''content'',
               pr_subject = subject_or_general (own_prop body ''subject'')\<rparr> = Inr data \<longrightarrow>
             (data = JNull \<longrightarrow>
                serve_handler E jp up req = failure_response (E (Cannot_read Null ''choices''))) \<and>
             (data \<noteq> JNull \<longrightarrow>
               (nullish_of (own_prop data ''choices'') = Some n1 \<longrightarrow>
                  serve_handler E jp up req = failure_response (E (Cannot_read n1 ''0''))) \<and>
               (own_prop data ''choices'' = Some choices \<and> choices \<noteq> JNull \<longrightarrow>
                 (nullish_of (index0 choices) = Some n2 \<longrightarrow>
                    serve_handler E jp up req =
                      failure_response (E (Cannot_read n2 ''message''))) \<and>
                 (index0 choices = Some first \<and> first \<noteq> JNull \<longrightarrow>
                   (nullish_of (own_prop first ''message'') = Some n3 \<longrightarrow>
                      serve_handler E jp up req =
                        failure_response (E (Cannot_read n3 ''content''))) \<and>
                   (own_prop first ''message'' = Some msg \<and> msg \<noteq> JNull \<longrightarrow>
                     (jp (own_prop msg ''content'') = Some parsed \<longrightarrow>
                        serve_handler E jp up req = success_response parsed) \<and>
                     (jp (own_prop msg ''content'') = None \<longrightarrow>
                        serve_handler E jp up req =
                          success_response (content_wrapper (own_prop msg ''content'')))))))))))) \<and>
   resp_status options_response = 200 \<and> resp_body options_response = None \<and>
   resp_status (success_response s) = 200 \<and>
   resp_body (success_response s) =
     Some (JObj [(''success'', JBool True), (''suggestion'', s)]) \<and>
   resp_status (failure_response m) = 500 \<and>
   resp_body (failure_response m) = Some (JObj [(''success'', JBool False), (''error'', JStr m)]) \<and>
   content_wrapper None = JObj [] \<and> content_wrapper (Some v) = JObj [(''content'', v)] \<and>
   template_of (Some (JStr ''question-improvement'')) = Inr Question_improvement \<and>
   template_of (Some (JStr ''answer-hints'')) = Inr Answer_hints \<and>
   template_of (Some (JStr ''study-plan'')) = Inr Study_plan"
  (is "?options \<and> ?others \<and> ?shapes")
proof -
  have options: ?options
    by (simp add: serve_handler_def)
  have others: ?others
    by (intro conjI impI; (elim conjE)?;
        simp add: serve_handler_def try_block_def error_message_def parse_suggestion_def
          build_prompt_null build_prompt_invalid build_prompt_splice build_prompt_ok
          completion_content_null completion_content_no_choices completion_content_no_first
          completion_content_no_message completion_content_ok)
  have shapes: ?shapes
    by (simp add: options_response_def success_response_def failure_response_def
          content_wrapper_def template_of_def)
  show ?thesis
    by (rule conjI [OF options conjI [OF others shapes]])
qed

text \<open>
  One request for each case: a preflight, an unreadable body, the bodies \<^verbatim>\<open>null\<close> and
  \<^verbatim>\<open>3\<close>, an unknown type, a content with a \<^verbatim>\<open>toString\<close> key, an unreachable upstream,
  an upstream reply without \<^verbatim>\<open>choices\<close>, a completion that parses and one that does not.
\<close>

theorem suggestion_proxy_responses_witness:
  "serve_handler v8_message parse_example (\<lambda>p. Inr (reply_with (JStr ''[1]''))) options_request =
     \<lparr>resp_status = 200, resp_headers = corsHeaders, resp_body = None\<rparr> \<and>
   serve_handler v8_message parse_example (\<lambda>p. Inr (reply_with (JStr ''[1]'')))
       \<lparr>req_method = ''POST'', req_json = Inl (Thrown ''Unexpected end of JSON input'')\<rparr> =
     failure_response ''Unexpected end of JSON input'' \<and>
   serve_handler v8_message parse_example (\<lambda>p. Inr (reply_with (JStr ''[1]'')))
       (post_request JNull) =
     failure_response (v8_message (Cannot_destructure Null)) \<and>
   serve_handler v8_message parse_example (\<lambda>p. Inr (reply_with (JStr ''[1]'')))
       (post_request (JNum 3)) =
     failure_response ''Invalid suggestion type'' \<and>
   serve_handler v8_message parse_example (\<lambda>p. Inr (reply_with (JStr ''[1]'')))
       (post_request (post_body ''quiz'' (JStr ''graphs''))) =
     failure_response ''Invalid suggestion type'' \<and>
   serve_handler v8_message parse_example (\<lambda>p. Inr (reply_with (JStr ''[1]'')))
       (post_request (post_body ''study-plan'' (JObj [(''toString'', JNum 0)]))) =
     failure_response ''Cannot convert object to primitive value'' \<and>
   serve_handler v8_message parse_example (\<lambda>p. Inl (Thrown ''connection refused''))
       (post_request (post_body ''question-improvement'' (JStr ''graphs''))) =
     failure_response ''connection refused'' \<and>
   serve_handler v8_message parse_example (\<lambda>p. Inr (JObj [(''error'', JStr ''quota'')]))
       (post_request (post_body ''study-plan'' (JStr ''graphs''))) =
     failure_response (v8_message (Cannot_read Undefined ''0'')) \<and>
   serve_handler v8_message parse_example (\<lambda>p. Inr (reply_with (JStr ''[1]'')))
       (post_request (post_body ''study-plan'' (JStr ''graphs''))) =
     success_response (JArr [JNum 1]) \<and>
   serve_handler v8_message parse_example (\<lambda>p. Inr (reply_with (JStr ''plain words'')))
       (post_request (post_body ''answer-hints'' (JStr ''graphs''))) =
     success_response (JObj [(''content'', JStr ''plain words'')])"
proof -
  let ?ok = "\<lambda>p::prompt. Inr (reply_with (JStr ''[1]'')) :: json thrown_or"
  let ?plain = "\<lambda>p::prompt. Inr (reply_with (JStr ''plain words'')) :: json thrown_or"
  let ?down = "\<lambda>p::prompt. Inl (Thrown ''connection refused'') :: json thrown_or"
  let ?quota = "\<lambda>p::prompt. Inr (JObj [(''error'', JStr ''quota'')]) :: json thrown_or"
  note defs = post_request_def post_body_def options_request_def own_prop_def index0_def
    nullish_of_def template_of_def splice_throws_def subject_or_general_def js_truthy_def
    reply_with_def parse_example_def error_message_def
  have options: "serve_handler v8_message parse_example ?ok options_request =
     \<lparr>resp_status = 200, resp_headers = corsHeaders, resp_body = None\<rparr>"
    using suggestion_proxy_responses
      [where E = v8_message and jp = parse_example and up = ?ok and req = options_request]
    by (simp add: options_request_def options_response_def)
  have unreadable: "serve_handler v8_message parse_example ?ok
       \<lparr>req_method = ''POST'', req_json = Inl (Thrown ''Unexpected end of JSON input'')\<rparr> =
     failure_response ''Unexpected end of JSON input''"
    using suggestion_proxy_responses
      [where E = v8_message and jp = parse_example and up = ?ok
         and req = "\<lparr>req_method = ''POST'',
                       req_json = Inl (Thrown ''Unexpected end of JSON input'')\<rparr>"
         and e = "Thrown ''Unexpected end of JSON input''"]
    by (simp add: error_message_def)
  have null: "serve_handler v8_message parse_example ?ok (post_request JNull) =
     failure_response (v8_message (Cannot_destructure Null))"
    using suggestion_proxy_responses
      [where E = v8_message and jp = parse_example and up = ?ok and req = "post_request JNull"]
    by (simp add: post_request_def)
  have number: "serve_handler v8_message parse_example ?ok (post_request (JNum 3)) =
     failure_response ''Invalid suggestion type''"
    using suggestion_proxy_responses
      [where E = v8_message and jp = parse_example and up = ?ok
         and req = "post_request (JNum 3)" and body = "JNum 3"]
    by (simp add: defs)
  have quiz: "serve_handler v8_message parse_example ?ok
       (post_request (post_body ''quiz'' (JStr ''graphs''))) =
     failure_response ''Invalid suggestion type''"
    using suggestion_proxy_responses
      [where E = v8_message and jp = parse_example and up = ?ok
         and req = "post_request (post_body ''quiz'' (JStr ''graphs''))"
         and body = "post_body ''quiz'' (JStr ''graphs'')"]
    by (simp add: defs)
  have unconvertible: "serve_handler v8_message parse_example ?ok
       (post_request (post_body ''study-plan'' (JObj [(''toString'', JNum 0)]))) =
     failure_response ''Cannot convert object to primitive value''"
    using suggestion_proxy_responses
      [where E = v8_message and jp = parse_example and up = ?ok
         and req = "post_request (post_body ''study-plan'' (JObj [(''toString'', JNum 0)]))"
         and body = "post_body ''study-plan'' (JObj [(''toString'', JNum 0)])"
         and tmpl = Study_plan]
    by (simp add: defs v8_message_def)
  have down: "serve_handler v8_message parse_example ?down
       (post_request (post_body ''question-improvement'' (JStr ''graphs''))) =
     failure_response ''connection refused''"
    using suggestion_proxy_responses
      [where E = v8_message and jp = parse_example and up = ?down
         and req = "post_request (post_body ''question-improvement'' (JStr ''graphs''))"
         and body = "post_body ''question-improvement'' (JStr ''graphs'')"
         and tmpl = Question_improvement and e' = "Thrown ''connection refused''"]
    by (simp add: defs)
  have quota: "serve_handler v8_message parse_example ?quota
       (post_request (post_body ''study-plan'' (JStr ''graphs''))) =
     failure_response (v8_message (Cannot_read Undefined ''0''))"
    using suggestion_proxy_responses
      [where E = v8_message and jp = parse_example and up = ?quota
         and req = "post_request (post_body ''study-plan'' (JStr ''graphs''))"
         and body = "post_body ''study-plan'' (JStr ''graphs'')"
         and tmpl = Study_plan and data = "JObj [(''error'', JStr ''quota'')]"
         and ?n1.0 = Undefined]
    by (simp add: defs)
  have parsed: "serve_handler v8_message parse_example ?ok
       (post_request (post_body ''study-plan'' (JStr ''graphs''))) =
     success_response (JArr [JNum 1])"
    using suggestion_proxy_responses
      [where E = v8_message and jp = parse_example and up = ?ok
         and req = "post_request (post_body ''study-plan'' (JStr ''graphs''))"
         and body = "post_body ''study-plan'' (JStr ''graphs'')"
         and tmpl = Study_plan and data = "reply_with (JStr ''[1]'')"
         and choices = "JArr [JObj [(''message'',
               JObj [(''role'', JStr ''assistant''), (''content'', JStr ''[1]'')])]]"
         and first = "JObj [(''message'',
               JObj [(''role'', JStr ''assistant''), (''content'', JStr ''[1]'')])]"
         and msg = "JObj [(''role'', JStr ''assistant''), (''content'', JStr ''[1]'')]"
         and parsed = "JArr [JNum 1]"]
    by (simp add: defs)
  have fallback: "serve_handler v8_message parse_example ?plain
       (post_request (post_body ''answer-hints'' (JStr ''graphs''))) =
     success_response (JObj [(''content'', JStr ''plain words'')])"
    using suggestion_proxy_responses
      [where E = v8_message and jp = parse_example and up = ?plain
         and req = "post_request (post_body ''answer-hints'' (JStr ''graphs''))"
         and body = "post_body ''answer-hints'' (JStr ''graphs'')"
         and tmpl = Answer_hints and data = "reply_with (JStr ''plain words'')"
         and choices = "JArr [JObj [(''message'',
               JObj [(''role'', JStr ''assistant''), (''content'', JStr ''plain words'')])]]"
         and first = "JObj [(''message'',
               JObj [(''role'', JStr ''assistant''), (''content'', JStr ''plain words'')])]"
         and msg = "JObj [(''role'', JStr ''assistant''), (''content'', JStr ''plain words'')]"
         and v = "JStr ''plain words''"]
    by (simp add: defs)
  show ?thesis
    by (intro conjI options unreadable null number quiz unconvertible down quota parsed fallback)
qed

end
